theory Spec2Isabelle
  imports Complex_Main "HOL-Library.Log_Nat"
begin

section \<open>JavaScript numbers\<close>

text \<open>
  The balances of \<^verbatim>\<open>main.js\<close> are JavaScript numbers, that is IEEE 754 binary64
  values. A finite binary64 value is a rational, so a number is modelled by the rational
  it denotes, and every arithmetic operation of the source is the exact operation
  followed by \<open>fl\<close>, rounding to the nearest binary64 value with ties to the even
  significand. The exponent is bounded below as in binary64 (subnormals are multiples of
  \<open>2\<^sup>-\<^sup>1\<^sup>0\<^sup>7\<^sup>4\<close>); overflow to \<open>Infinity\<close> is not modelled: it needs a magnitude of
  \<open>2\<^sup>1\<^sup>0\<^sup>2\<^sup>4\<close>, and every number of this program is a 64-bit amount, such an amount
  divided by \<open>10\<^sup>6\<close>, or a difference of two of those. \<open>NaN\<close> and \<open>-0\<close> do not arise either.
\<close>

definition pow2 :: "int \<Rightarrow> rat" where
  "pow2 e = (if 0 \<le> e then 2 ^ nat e else 1 / 2 ^ nat (- e))"

definition round_half_even :: "rat \<Rightarrow> int" where
  "round_half_even x =
     (let f = \<lfloor>x\<rfloor>; d = x - of_int f
      in if d < 1 / 2 then f
         else if 1 / 2 < d then f + 1
         else if even f then f else f + 1)"

text \<open>\<open>ilog2 x\<close> is the binary exponent of a positive \<open>x\<close>: \<open>2\<^bsup>ilog2 x\<^esup> \<le> x < 2\<^bsup>ilog2 x + 1\<^esup>\<close>.\<close>

definition ilog2 :: "rat \<Rightarrow> int" where
  "ilog2 x =
     (let (p, q) = quotient_of x; k = bitlen p - bitlen q
      in if pow2 k \<le> x then k else k - 1)"

definition fl :: "rat \<Rightarrow> rat" where
  "fl x =
     (if x = 0 then 0
      else let e = max (ilog2 \<bar>x\<bar> - 52) (- 1074)
           in of_int (round_half_even (x / pow2 e)) * pow2 e)"

text \<open>\<^verbatim>\<open>Number(amount)\<close> of a non-negative BigInt, \<^verbatim>\<open>x / y\<close> and \<^verbatim>\<open>x - y\<close>.\<close>

definition Number :: "nat \<Rightarrow> rat" where
  "Number amount = fl (of_nat amount)"

definition js_div :: "rat \<Rightarrow> rat \<Rightarrow> rat" where
  "js_div x y = fl (x / y)"

definition js_sub :: "rat \<Rightarrow> rat \<Rightarrow> rat" where
  "js_sub x y = fl (x - y)"

text \<open>
  Line 94: \<^verbatim>\<open>balance = Number(tokenAccount.amount) / Math.pow(10, 6)\<close>. The amount is the
  unsigned 64-bit integer of the token account, read as a BigInt; \<^verbatim>\<open>Math.pow(10, 6)\<close> is
  the number \<open>1000000\<close>.
\<close>

definition normalized_balance :: "nat \<Rightarrow> rat" where
  "normalized_balance amount = js_div (Number amount) (10 ^ 6)"

section \<open>Data model\<close>

type_synonym address = string
type_synonym chat_id = int

text \<open>
  The three outcomes of \<^verbatim>\<open>getAccount\<close> that \<^verbatim>\<open>getTokenBalance\<close> tells apart: the account
  with its raw amount, the error named \<^verbatim>\<open>TokenAccountNotFoundError\<close>, any other error.
\<close>

datatype fetch_result = Account nat | TokenAccountNotFoundError | OtherError

text \<open>A balance as returned by \<^verbatim>\<open>getTokenBalance\<close> and as held in \<^verbatim>\<open>lastBalances\<close>:
  \<^verbatim>\<open>null\<close> or a number.\<close>

datatype js_balance = Null | Balance rat

record probe_result =
  balance :: js_balance
  tokenAccount :: "string option"

text \<open>
  The texts handed to \<^verbatim>\<open>ctx.reply\<close> and \<^verbatim>\<open>bot.telegram.sendMessage\<close>, by their template and
  the values interpolated: lines 35, 49, 60, 124 and 160 to 163 (address, previous,
  current, change).
\<close>

datatype message =
    ProvideAddress
  | AddedAddress address
  | InvalidAddress
  | NewTokenAccount address string
  | BalanceChange address rat rat rat

text \<open>
  The console lines that mark a decision of the program: the \<^verbatim>\<open>console.error\<close> of lines 59,
  115, 134 and 190 and the \<^verbatim>\<open>console.log\<close> of lines 66, 112, 122, 140, 148, 164, 167, 169 and
  173, in this order below. The other \<^verbatim>\<open>console.log\<close> calls only repeat values and are left
  out, as are the \<^verbatim>\<open>console.error\<close> of lines 202 and 215, which report an exception that
  left a handler or \<^verbatim>\<open>main\<close>.
\<close>

datatype log_entry =
    ErrInvalidAddress string
  | ErrTokenAccount address
  | ErrTokenBalance address
  | ErrInitialAddress string
  | LogFetching address
  | LogNotFound address
  | LogNewAccount address string
  | LogCycleStart
  | LogSkip address
  | LogSending address chat_id
  | LogUpdated address rat
  | LogNoChange address
  | LogCycleCompleted

text \<open>
  What lies outside \<^verbatim>\<open>main.js\<close>: whether \<^verbatim>\<open>new PublicKey(s)\<close> accepts a string, the
  configured mint, the associated token address of an owner in base 58 (\<open>None\<close> when
  \<^verbatim>\<open>getAssociatedTokenAddressSync\<close> throws), the ledger and the Telegram transport. The
  last two answer differently from call to call: they are indexed by the number of
  external calls made so far (\<open>tick\<close> below). \<^verbatim>\<open>ctx.reply(text)\<close> is
  \<^verbatim>\<open>sendMessage(ctx.chat.id, text)\<close>; \<open>sendMessage\<close> is \<open>False\<close> where the call rejects.
\<close>

record world =
  validKey :: "string \<Rightarrow> bool"
  tokenMint :: string
  deriveATA :: "address \<Rightarrow> string option"
  getAccount :: "nat \<Rightarrow> string \<Rightarrow> fetch_result"
  sendMessage :: "nat \<Rightarrow> chat_id \<Rightarrow> message \<Rightarrow> bool"

text \<open>
  The three module-level maps (lines 19 to 21), with the insertion order of the
  JavaScript \<^verbatim>\<open>Map\<close> and \<^verbatim>\<open>Set\<close> that the monitoring loops iterate in; every message
  handed to the transport, with whether it was delivered; the console; the call counter.
\<close>

record bot_state =
  userAddresses :: "(chat_id \<times> address list) list"
  lastBalances :: "address \<rightharpoonup> js_balance"
  knownTokenAccounts :: "address \<rightharpoonup> string set"
  outbox :: "(chat_id \<times> message \<times> bool) list"
  console :: "log_entry list"
  tick :: nat

definition initial_state :: bot_state where
  "initial_state =
     \<lparr>userAddresses = [], lastBalances = Map.empty, knownTokenAccounts = Map.empty,
      outbox = [], console = [], tick = 0\<rparr>"

definition logline :: "log_entry \<Rightarrow> bot_state \<Rightarrow> bot_state" where
  "logline l s = s\<lparr>console := console s @ [l]\<rparr>"

definition send :: "world \<Rightarrow> chat_id \<Rightarrow> message \<Rightarrow> bot_state \<Rightarrow> bool \<times> bot_state" where
  "send w c m s =
     (let ok = sendMessage w (tick s) c m
      in (ok, s\<lparr>outbox := outbox s @ [(c, m, ok)], tick := Suc (tick s)\<rparr>))"

section \<open>getTokenBalance\<close>

text \<open>The outer \<^verbatim>\<open>catch\<close>, lines 133 to 136.\<close>

definition probe_failure :: "address \<Rightarrow> bot_state \<Rightarrow> probe_result \<times> bot_state" where
  "probe_failure address s =
     (\<lparr>balance = Null, tokenAccount = None\<rparr>, logline (ErrTokenBalance address) s)"

text \<open>
  Lines 120 to 131, after the fetch. \<^verbatim>\<open>if (chatId)\<close> is false for \<^verbatim>\<open>null\<close> and for \<open>0\<close>. A
  rejected \<^verbatim>\<open>sendMessage\<close> is thrown inside the outer \<^verbatim>\<open>try\<close>.
\<close>

definition detect_and_return ::
  "world \<Rightarrow> address \<Rightarrow> chat_id option \<Rightarrow> string \<Rightarrow> rat \<Rightarrow> bool \<Rightarrow> bot_state
     \<Rightarrow> probe_result \<times> bot_state" where
  "detect_and_return w address chatId ata bal tokenAccountExists s =
     (let previousAccounts = (case knownTokenAccounts s address of None \<Rightarrow> {} | Some A \<Rightarrow> A);
          result = \<lparr>balance = Balance bal,
                    tokenAccount = (if tokenAccountExists then Some ata else None)\<rparr>
      in if tokenAccountExists \<and> ata \<notin> previousAccounts then
           (let s1 = logline (LogNewAccount address ata) s
            in case chatId of
                 None \<Rightarrow> (result, s1)
               | Some c \<Rightarrow>
                   if c = 0 then (result, s1)
                   else (case send w c (NewTokenAccount address ata) s1 of
                           (True, s2) \<Rightarrow> (result, s2)
                         | (False, s2) \<Rightarrow> probe_failure address s2))
         else (result, s))"

definition getTokenBalance ::
  "world \<Rightarrow> address \<Rightarrow> chat_id option \<Rightarrow> bot_state \<Rightarrow> probe_result \<times> bot_state" where
  "getTokenBalance w address chatId s0 =
     (let s = logline (LogFetching address) s0
      in if \<not> validKey w address then probe_failure address s
         else if \<not> validKey w (tokenMint w) then probe_failure address s
         else case deriveATA w address of
                None \<Rightarrow> probe_failure address s
              | Some ata \<Rightarrow>
                  (let s1 = s\<lparr>tick := Suc (tick s)\<rparr>
                   in case getAccount w (tick s) ata of
                        Account amount \<Rightarrow>
                          detect_and_return w address chatId ata (normalized_balance amount) True s1
                      | TokenAccountNotFoundError \<Rightarrow>
                          detect_and_return w address chatId ata 0 False
                            (logline (LogNotFound address) s1)
                      | OtherError \<Rightarrow>
                          probe_failure address (logline (ErrTokenAccount address) s1)))"

section \<open>monitorBalances\<close>

text \<open>\<^verbatim>\<open>lastBalances.get(address) || 0\<close>, line 156: \<^verbatim>\<open>undefined\<close>, \<^verbatim>\<open>null\<close> and \<open>0\<close> are falsy.\<close>

definition lastBalance_or_zero :: "(address \<rightharpoonup> js_balance) \<Rightarrow> address \<Rightarrow> rat" where
  "lastBalance_or_zero m address =
     (case m address of None \<Rightarrow> 0 | Some Null \<Rightarrow> 0 | Some (Balance x) \<Rightarrow> x)"

text \<open>
  \<^verbatim>\<open>if (tokenAccount) knownTokenAccounts.set(address, new Set([tokenAccount]))\<close>, at lines 53,
  152 and 184; the empty string is falsy.
\<close>

definition record_token_account :: "address \<Rightarrow> string option \<Rightarrow> bot_state \<Rightarrow> bot_state" where
  "record_token_account address ta s =
     (case ta of
        None \<Rightarrow> s
      | Some t \<Rightarrow>
          if t = [] then s
          else s\<lparr>knownTokenAccounts := (knownTokenAccounts s)(address \<mapsto> {t})\<rparr>)"

text \<open>How a piece of code ends: it returns, or an exception leaves it.\<close>

datatype completion = Normal | Thrown

text \<open>
  The body of the inner loop, lines 144 to 170. The \<^verbatim>\<open>sendMessage\<close> of line 165 is under no
  \<^verbatim>\<open>try\<close>: when it rejects, the exception leaves \<^verbatim>\<open>monitorBalances\<close> before line 166.
\<close>

definition monitor_address ::
  "world \<Rightarrow> chat_id \<Rightarrow> address \<Rightarrow> bot_state \<Rightarrow> completion \<times> bot_state" where
  "monitor_address w chatId address s0 =
     (case getTokenBalance w address (Some chatId) s0 of
        (r, s1) \<Rightarrow>
          (case balance r of
             Null \<Rightarrow> (Normal, logline (LogSkip address) s1)
           | Balance currentBalance \<Rightarrow>
               (let s2 = record_token_account address (tokenAccount r) s1;
                    lastBalance = lastBalance_or_zero (lastBalances s2) address
                in if currentBalance \<noteq> lastBalance then
                     (let change = js_sub currentBalance lastBalance
                      in case send w chatId
                                (BalanceChange address lastBalance currentBalance change)
                                (logline (LogSending address chatId) s2) of
                           (True, s3) \<Rightarrow>
                             (Normal,
                              logline (LogUpdated address currentBalance)
                                (s3\<lparr>lastBalances :=
                                      (lastBalances s3)(address \<mapsto> Balance currentBalance)\<rparr>))
                         | (False, s3) \<Rightarrow> (Thrown, s3))
                   else (Normal, logline (LogNoChange address) s2))))"

fun monitor_addresses ::
  "world \<Rightarrow> chat_id \<Rightarrow> address list \<Rightarrow> bot_state \<Rightarrow> completion \<times> bot_state" where
  "monitor_addresses w chatId [] s = (Normal, s)"
| "monitor_addresses w chatId (address # rest) s =
     (case monitor_address w chatId address s of
        (Normal, s') \<Rightarrow> monitor_addresses w chatId rest s'
      | (Thrown, s') \<Rightarrow> (Thrown, s'))"

fun monitor_chats ::
  "world \<Rightarrow> (chat_id \<times> address list) list \<Rightarrow> bot_state \<Rightarrow> completion \<times> bot_state" where
  "monitor_chats w [] s = (Normal, s)"
| "monitor_chats w ((chatId, addresses) # rest) s =
     (case monitor_addresses w chatId addresses s of
        (Normal, s') \<Rightarrow> monitor_chats w rest s'
      | (Thrown, s') \<Rightarrow> (Thrown, s'))"

text \<open>
  One cycle, run from its first line to its last with nothing in between: the loops do
  not change \<^verbatim>\<open>userAddresses\<close>, so they iterate the entries the cycle started with.
\<close>

definition monitorBalances :: "world \<Rightarrow> bot_state \<Rightarrow> completion \<times> bot_state" where
  "monitorBalances w s =
     (case monitor_chats w (userAddresses s) (logline LogCycleStart s) of
        (Normal, s') \<Rightarrow> (Normal, logline LogCycleCompleted s')
      | (Thrown, s') \<Rightarrow> (Thrown, s'))"

section \<open>The /add command\<close>

text \<open>\<^verbatim>\<open>text.split(' ')\<close>: the pieces between the separators, empty ones included.\<close>

fun js_split :: "char \<Rightarrow> string \<Rightarrow> string list" where
  "js_split sep [] = [] # []"
| "js_split sep (c # cs) =
     (if c = sep then [] # js_split sep cs
      else case js_split sep cs of
             [] \<Rightarrow> [c] # []
           | p # ps \<Rightarrow> (c # p) # ps)"

text \<open>\<^verbatim>\<open>ctx.message.text.split(' ')[1]\<close>, \<open>None\<close> for \<^verbatim>\<open>undefined\<close>.\<close>

definition command_argument :: "string \<Rightarrow> string option" where
  "command_argument text =
     (case js_split (CHR '' '') text of
        _ # a # _ \<Rightarrow> Some a
      | _ \<Rightarrow> None)"

definition set_add :: "'a list \<Rightarrow> 'a \<Rightarrow> 'a list" where
  "set_add xs x = (if x \<in> set xs then xs else xs @ [x])"

text \<open>Lines 42 to 46: a new chat gets an empty set at the end of the map, then the
  address is added to the chat's set.\<close>

fun registry_add ::
  "chat_id \<Rightarrow> address \<Rightarrow> (chat_id \<times> address list) list \<Rightarrow> (chat_id \<times> address list) list" where
  "registry_add c a [] = [(c, set_add [] a)]"
| "registry_add c a ((k, addresses) # rest) =
     (if k = c then (k, set_add addresses a) # rest
      else (k, addresses) # registry_add c a rest)"

definition tracks :: "(chat_id \<times> address list) list \<Rightarrow> chat_id \<Rightarrow> address \<Rightarrow> bool" where
  "tracks registry c a =
     (case map_of registry c of None \<Rightarrow> False | Some addresses \<Rightarrow> a \<in> set addresses)"

text \<open>The \<^verbatim>\<open>catch\<close> of the handler, lines 58 to 61.\<close>

definition add_catch :: "world \<Rightarrow> chat_id \<Rightarrow> string \<Rightarrow> bot_state \<Rightarrow> bot_state" where
  "add_catch w chatId address s =
     snd (send w chatId InvalidAddress (logline (ErrInvalidAddress address) s))"

text \<open>
  The handler, lines 28 to 62. \<^verbatim>\<open>getTokenBalance\<close> catches whatever is thrown inside it, so
  the only exceptions that reach the handler's \<^verbatim>\<open>catch\<close> are those of \<^verbatim>\<open>new PublicKey\<close>
  (line 39) and of the reply of line 49.
\<close>

definition add_command :: "world \<Rightarrow> chat_id \<Rightarrow> string \<Rightarrow> bot_state \<Rightarrow> bot_state" where
  "add_command w chatId text s =
     (case command_argument text of
        None \<Rightarrow> snd (send w chatId ProvideAddress s)
      | Some address \<Rightarrow>
          if address = [] then snd (send w chatId ProvideAddress s)
          else if \<not> validKey w address then add_catch w chatId address s
          else
            (let s1 = s\<lparr>userAddresses := registry_add chatId address (userAddresses s)\<rparr>
             in case send w chatId (AddedAddress address) s1 of
                  (False, s2) \<Rightarrow> add_catch w chatId address s2
                | (True, s2) \<Rightarrow>
                    (case getTokenBalance w address (Some chatId) s2 of
                       (r, s3) \<Rightarrow>
                         record_token_account address (tokenAccount r)
                           (s3\<lparr>lastBalances := (lastBalances s3)(address \<mapsto> balance r)\<rparr>))))"

section \<open>Start-up\<close>

text \<open>The loop of \<^verbatim>\<open>main\<close> over the configured seed list, lines 178 to 192.\<close>

fun load_initial :: "world \<Rightarrow> address list \<Rightarrow> bot_state \<Rightarrow> bot_state" where
  "load_initial w [] s = s"
| "load_initial w (address # rest) s =
     load_initial w rest
       (if \<not> validKey w address then logline (ErrInitialAddress address) s
        else case getTokenBalance w address None s of
               (r, s1) \<Rightarrow>
                 record_token_account address (tokenAccount r)
                   (s1\<lparr>lastBalances := (lastBalances s1)(address \<mapsto> balance r)\<rparr>))"

section \<open>Runs\<close>

text \<open>
  After start-up the program reacts to /add commands and to the timer of line 194. A run
  is a sequence of these, each handled to its end before the next. An exception that
  leaves the /add handler goes to \<^verbatim>\<open>bot.catch\<close> (line 201) and the program goes on. An
  exception that leaves \<^verbatim>\<open>monitorBalances\<close> is the rejected promise of the timer's callback:
  nothing in \<^verbatim>\<open>main.js\<close> handles it, the process ends, and the run ends with it in the state
  the cycle left.
\<close>

datatype event = AddCommand chat_id string | TimerFires

fun handle :: "world \<Rightarrow> event \<Rightarrow> bot_state \<Rightarrow> completion \<times> bot_state" where
  "handle w (AddCommand chatId text) s = (Normal, add_command w chatId text s)"
| "handle w TimerFires s = monitorBalances w s"

fun run :: "world \<Rightarrow> event list \<Rightarrow> bot_state \<Rightarrow> bot_state" where
  "run w [] s = s"
| "run w (e # es) s =
     (case handle w e s of
        (Normal, s') \<Rightarrow> run w es s'
      | (Thrown, s') \<Rightarrow> s')"

section \<open>Concrete worlds\<close>

text \<open>
  Two wallets, both public keys on the curve, and a mint standing in for the configured
  one, for the evaluations below. The token addresses are the associated token addresses
  of the two wallets for this mint under the Token-2022 program, as
  \<^verbatim>\<open>getAssociatedTokenAddressSync\<close> derives them; no property depends on their characters.
\<close>

definition alice :: address where
  "alice = ''vines1vzrYbzLMRdu58ou5XTby4qAqVRLmqo36NKPTg''"

definition bob :: address where
  "bob = ''9WzDXwBbmkg8ZTbNMqUxvQRAyrZzDsGYdLVL9zYtAWWM''"

definition mint :: string where
  "mint = ''So11111111111111111111111111111111111111112''"

definition alice_ata :: string where
  "alice_ata = ''4yueVRghEVqcEpzfwFGQG9qQbVUTdKj81uQsEBJHufxW''"

definition bob_ata :: string where
  "bob_ata = ''DSEcUmCSeNX75D53mJSj2kxvbJYSoAxcLfVcEifzuTV1''"

definition example_world ::
  "(nat \<Rightarrow> string \<Rightarrow> fetch_result) \<Rightarrow> (nat \<Rightarrow> chat_id \<Rightarrow> message \<Rightarrow> bool) \<Rightarrow> world" where
  "example_world ledger transport =
     \<lparr>validKey = (\<lambda>s. s = alice \<or> s = bob \<or> s = mint),
      tokenMint = mint,
      deriveATA = (\<lambda>a. if a = alice then Some alice_ata
                        else if a = bob then Some bob_ata else None),
      getAccount = ledger,
      sendMessage = transport\<rparr>"

text \<open>A state in which \<open>alice\<close> was probed before: her token account is known and her last
  balance is \<open>b\<close>.\<close>

definition alice_known :: "(chat_id \<times> address list) list \<Rightarrow> rat \<Rightarrow> bot_state" where
  "alice_known registry b =
     initial_state
       \<lparr>userAddresses := registry,
        lastBalances := [alice \<mapsto> Balance b],
        knownTokenAccounts := [alice \<mapsto> {alice_ata}]\<rparr>"

section \<open>Facts about the numbers\<close>

lemma pow2_powi: "pow2 e = 2 powi e"
  by (simp add: pow2_def power_int_def inverse_eq_divide power_one_over)

lemma pow2_pos: "0 < pow2 e"
  by (simp add: pow2_powi)

lemma pow2_add: "pow2 (a + b) = pow2 a * pow2 b"
  by (simp add: pow2_powi power_int_add)

lemma pow2_mono: "a \<le> b \<Longrightarrow> pow2 a \<le> pow2 b"
  by (simp add: pow2_powi power_int_increasing)

lemma pow2_nat: "0 \<le> e \<Longrightarrow> pow2 e = of_int (2 ^ nat e)"
  by (simp add: pow2_def)

lemma round_half_even_error: "\<bar>of_int (round_half_even x) - x\<bar> \<le> 1 / 2"
proof -
  have "of_int \<lfloor>x\<rfloor> \<le> x" "x < of_int \<lfloor>x\<rfloor> + 1" by linarith+
  then show ?thesis
    by (auto simp: round_half_even_def Let_def)
qed

lemma round_half_even_of_int: "round_half_even (of_int n) = n"
  by (simp add: round_half_even_def)

lemma ilog2_bounds:
  assumes "0 < x"
  shows "pow2 (ilog2 x) \<le> x" and "x < pow2 (ilog2 x + 1)"
proof -
  obtain p q where pq: "quotient_of x = (p, q)" by (cases "quotient_of x")
  then have q: "0 < q" and x: "x = of_int p / of_int q"
    using quotient_of_denom_pos quotient_of_div by blast+
  with assms have p: "0 < p"
    by (simp add: zero_less_divide_iff)
  define k where "k = bitlen p - bitlen q"
  have bp: "2 ^ nat (bitlen p - 1) \<le> p" "p < 2 ^ nat (bitlen p)"
    using bitlen_bounds[OF p] by auto
  have bq: "2 ^ nat (bitlen q - 1) \<le> q" "q < 2 ^ nat (bitlen q)"
    using bitlen_bounds[OF q] by auto
  have bp1: "1 \<le> bitlen p" and bq1: "1 \<le> bitlen q"
    using p q bitlen_eq_zero_iff[of p] bitlen_eq_zero_iff[of q] bitlen_nonneg[of p] bitlen_nonneg[of q]
    by linarith+
  have P1: "pow2 (bitlen p - 1) \<le> of_int p"
    using bp(1) bp1 by (simp add: pow2_nat del: of_int_power) 
  have P2: "of_int p < pow2 (bitlen p)"
    using bp(2) bitlen_nonneg[of p] by (simp add: pow2_nat del: of_int_power)
  have Q1: "pow2 (bitlen q - 1) \<le> of_int q"
    using bq(1) bq1 by (simp add: pow2_nat del: of_int_power)
  have Q2: "of_int q < pow2 (bitlen q)"
    using bq(2) bitlen_nonneg[of q] by (simp add: pow2_nat del: of_int_power)
  have qpos: "(0::rat) < of_int q" using q by simp
  have up: "x < pow2 (k + 1)"
  proof -
    have "of_int p < pow2 (k + 1) * pow2 (bitlen q - 1)"
      using P2 by (simp add: k_def flip: pow2_add)
    also have "\<dots> \<le> pow2 (k + 1) * of_int q"
      using Q1 pow2_pos[of "k + 1"] by simp
    finally show ?thesis using qpos by (simp add: x pos_divide_less_eq)
  qed
  have lo: "pow2 (k - 1) \<le> x"
  proof -
    have "pow2 (k - 1) * of_int q \<le> pow2 (k - 1) * pow2 (bitlen q)"
      using Q2 pow2_pos[of "k - 1"] by simp
    also have "\<dots> = pow2 (bitlen p - 1)"
      by (simp add: k_def flip: pow2_add)
    also have "\<dots> \<le> of_int p" by (rule P1)
    finally show ?thesis using qpos by (simp add: x pos_le_divide_eq)
  qed
  have il: "ilog2 x = (if pow2 k \<le> x then k else k - 1)"
    by (simp add: ilog2_def pq k_def Let_def)
  show "pow2 (ilog2 x) \<le> x" using lo by (simp add: il)
  show "x < pow2 (ilog2 x + 1)" using up by (auto simp: il)
qed

lemma ilog2_less: 
  assumes "0 < x" "x < pow2 k" shows "ilog2 x < k"
proof (rule ccontr)
  assume "\<not> ilog2 x < k"
  then have "pow2 k \<le> pow2 (ilog2 x)" by (simp add: pow2_mono)
  with ilog2_bounds(1)[OF assms(1)] assms(2) show False by simp
qed

text \<open>
  Rounding moves a value by at most half a unit in the last place, and a natural number
  below \<open>2\<^sup>5\<^sup>3\<close> is a binary64 value.
\<close>

lemma fl_error:
  assumes "0 \<le> x" "x < pow2 k"
  shows "\<bar>fl x - x\<bar> \<le> pow2 (max (k - 53) (- 1074)) / 2"
proof (cases "x = 0")
  case True
  then show ?thesis using pow2_pos[of "max (k - 53) (- 1074)"] by (simp add: fl_def)
next
  case False
  with assms have xpos: "0 < x" by simp
  define e where "e = max (ilog2 \<bar>x\<bar> - 52) (- 1074)"
  have "ilog2 x < k" using ilog2_less[OF xpos assms(2)] .
  then have e_le: "e \<le> max (k - 53) (- 1074)"
    using xpos by (simp add: e_def)
  have flx: "fl x = of_int (round_half_even (x / pow2 e)) * pow2 e"
    using False by (simp add: fl_def e_def Let_def)
  have "fl x - x = (of_int (round_half_even (x / pow2 e)) - x / pow2 e) * pow2 e"
    using pow2_pos[of e] by (simp add: flx algebra_simps)
  then have "\<bar>fl x - x\<bar> = \<bar>of_int (round_half_even (x / pow2 e)) - x / pow2 e\<bar> * pow2 e"
    using pow2_pos[of e] by (simp add: abs_mult)
  also have "\<dots> \<le> (1 / 2) * pow2 e"
    using round_half_even_error[of "x / pow2 e"] pow2_pos[of e]
    by (intro mult_right_mono) simp_all
  also have "\<dots> \<le> (1 / 2) * pow2 (max (k - 53) (- 1074))"
    using pow2_mono[OF e_le] by simp
  finally show ?thesis by simp
qed

lemma fl_of_nat_exact:
  assumes "n < 2 ^ 53"
  shows "fl (of_nat n) = of_nat n"
proof (cases "n = 0")
  case True
  then show ?thesis by (simp add: fl_def)
next
  case False
  define x :: rat where "x = of_nat n"
  have xpos: "0 < x" using False by (simp add: x_def)
  have "(of_nat n :: rat) < of_nat (2 ^ 53)" using assms by (simp only: of_nat_less_iff)
  then have "x < pow2 53"
    by (simp add: x_def pow2_def)
  then have "ilog2 x < 53" using ilog2_less[OF xpos] by simp
  define e where "e = max (ilog2 \<bar>x\<bar> - 52) (- 1074)"
  have e0: "e \<le> 0" using \<open>ilog2 x < 53\<close> xpos by (simp add: e_def)
  have "pow2 e * pow2 (- e) = 1" by (simp flip: pow2_add add: pow2_def)
  then have "x / pow2 e = x * pow2 (- e)"
    using pow2_pos[of e] by (simp add: field_simps)
  also have "\<dots> = of_int (int n * 2 ^ nat (- e))"
    using e0 by (simp add: x_def pow2_nat)
  finally have "round_half_even (x / pow2 e) = int n * 2 ^ nat (- e)"
    by (simp only: round_half_even_of_int)
  then have "of_int (round_half_even (x / pow2 e)) * pow2 e = x * pow2 (- e) * pow2 e"
    using e0 by (simp add: x_def pow2_nat)
  also have "\<dots> = x" using \<open>pow2 e * pow2 (- e) = 1\<close> by (simp add: mult.assoc mult.commute)
  finally have "of_int (round_half_even (x / pow2 e)) * pow2 e = x" .
  moreover have "fl x = of_int (round_half_even (x / pow2 e)) * pow2 e"
    using xpos by (simp add: fl_def Let_def e_def)
  ultimately show ?thesis by (simp add: x_def)
qed

lemma normalized_balance_injective:
  assumes a: "a < 2 ^ 33 * 10 ^ 6" and b: "b < 2 ^ 33 * 10 ^ 6"
    and eq: "normalized_balance a = normalized_balance b"
  shows "a = b"
proof -
  have small: "(2::nat) ^ 33 * 10 ^ 6 < 2 ^ 53" by simp
  have Na: "Number a = of_nat a" and Nb: "Number b = of_nat b"
    using a b small by (simp_all add: Number_def fl_of_nat_exact)
  define x :: rat where "x = of_nat a / 10 ^ 6"
  define y :: rat where "y = of_nat b / 10 ^ 6"
  have xy: "fl x = fl y"
    using eq by (simp add: normalized_balance_def js_div_def Na Nb x_def y_def)
  have "(of_nat a :: rat) < of_nat (2 ^ 33 * 10 ^ 6)" using a by (simp only: of_nat_less_iff)
  then have xb: "0 \<le> x" "x < pow2 33"
    by (simp_all add: x_def pow2_def field_simps)
  have "(of_nat b :: rat) < of_nat (2 ^ 33 * 10 ^ 6)" using b by (simp only: of_nat_less_iff)
  then have yb: "0 \<le> y" "y < pow2 33"
    by (simp_all add: y_def pow2_def field_simps)
  have ex: "\<bar>fl x - x\<bar> \<le> pow2 (- 20) / 2"
    using fl_error[OF xb] by simp
  have ey: "\<bar>fl y - y\<bar> \<le> pow2 (- 20) / 2"
    using fl_error[OF yb] by simp
  have "\<bar>x - y\<bar> \<le> pow2 (- 20)"
    using ex ey xy by linarith
  then have "\<bar>x - y\<bar> < 1 / 10 ^ 6" by (simp add: pow2_def)
  then have "\<bar>(of_nat a :: rat) - of_nat b\<bar> < 1"
    by (simp add: x_def y_def field_simps flip: diff_divide_distrib)
  then have "\<bar>int a - int b\<bar> < 1"
    by (metis of_int_of_nat_eq of_int_diff of_int_abs of_int_less_1_iff)
  then show ?thesis by simp
qed

lemma normalized_balance_values:
  "normalized_balance 0 = 0"
  "normalized_balance 7500000 = 15 / 2"
  unfolding normalized_balance_def Number_def js_div_def of_nat_numeral of_nat_0
  by code_simp+

lemma js_sub_values:
  "js_sub (15 / 2) 5 = 5 / 2"
  unfolding js_sub_def by code_simp+

lemma more_values:
  "js_sub (15 / 2) 0 = 15 / 2"
  unfolding js_sub_def by code_simp

section \<open>Facts about the concrete worlds\<close>

lemma example_names [simp]:
  "alice \<noteq> []" "bob \<noteq> []" "alice_ata \<noteq> []" "bob_ata \<noteq> []"
  "alice \<noteq> bob" "bob \<noteq> alice" "alice \<noteq> mint" "bob \<noteq> mint"
  "CHR '' '' \<notin> set alice" "CHR '' '' \<notin> set bob" "alice_ata \<noteq> bob_ata"
  by (simp_all add: alice_def bob_def mint_def alice_ata_def bob_ata_def)

lemma js_split_no_separator: "sep \<notin> set a \<Longrightarrow> js_split sep a = [a]"
  by (induction a) auto

lemma command_argument_add:
  "CHR '' '' \<notin> set a \<Longrightarrow>
     command_argument (CHR ''/'' # CHR ''a'' # CHR ''d'' # CHR ''d'' # CHR '' '' # a) = Some a"
  by (simp add: command_argument_def js_split_no_separator)

lemmas eval_defs = monitorBalances_def example_world_def alice_known_def
  initial_state_def send_def getTokenBalance_def logline_def probe_failure_def
  record_token_account_def monitor_address_def detect_and_return_def lastBalance_or_zero_def
  add_command_def add_catch_def set_add_def tracks_def Let_def
  normalized_balance_values js_sub_values more_values command_argument_add

section \<open>Facts about the probe and the loop body\<close>

lemmas probe_defs = getTokenBalance_def detect_and_return_def probe_failure_def send_def
  logline_def Let_def

lemma getTokenBalance_store:
  "lastBalances (snd (getTokenBalance w a c s)) = lastBalances s"
  "knownTokenAccounts (snd (getTokenBalance w a c s)) = knownTokenAccounts s"
  "userAddresses (snd (getTokenBalance w a c s)) = userAddresses s"
  by (simp_all add: probe_defs split: option.splits fetch_result.splits bool.splits)


lemma record_token_account_fields [simp]:
  "lastBalances (record_token_account a t s) = lastBalances s"
  "outbox (record_token_account a t s) = outbox s"
  "console (record_token_account a t s) = console s"
  "tick (record_token_account a t s) = tick s"
  "userAddresses (record_token_account a t s) = userAddresses s"
  by (simp_all add: record_token_account_def split: option.splits)

lemma monitor_address_cases:
  "monitor_address w c a s =
     (let r = fst (getTokenBalance w a (Some c) s);
          s1 = snd (getTokenBalance w a (Some c) s)
      in case balance r of
           Null \<Rightarrow> (Normal, logline (LogSkip a) s1)
         | Balance cur \<Rightarrow>
             (let s2 = record_token_account a (tokenAccount r) s1;
                  prev = lastBalance_or_zero (lastBalances s) a
              in if cur \<noteq> prev then
                   (let m = BalanceChange a prev cur (js_sub cur prev);
                        ok = sendMessage w (tick s1) c m;
                        s3 = s2\<lparr>console := console s1 @ [LogSending a c],
                                outbox := outbox s1 @ [(c, m, ok)], tick := Suc (tick s1)\<rparr>
                    in if ok then
                         (Normal,
                          s3\<lparr>lastBalances := (lastBalances s)(a \<mapsto> Balance cur),
                             console := console s1 @ [LogSending a c, LogUpdated a cur]\<rparr>)
                       else (Thrown, s3))
                 else (Normal, s2\<lparr>console := console s1 @ [LogNoChange a]\<rparr>)))"
proof -
  obtain r s1 where g: "getTokenBalance w a (Some c) s = (r, s1)"
    by (cases "getTokenBalance w a (Some c) s")
  have lb: "lastBalances s1 = lastBalances s"
    using getTokenBalance_store(1)[of w a "Some c" s] g by simp
  show ?thesis
    by (simp add: monitor_address_def g lb send_def logline_def Let_def split: js_balance.splits)
qed

lemma monitor_address_failed_probe:
  assumes "balance (fst (getTokenBalance w a (Some c) s)) = Null"
  shows "monitor_address w c a s = (Normal, logline (LogSkip a) (snd (getTokenBalance w a (Some c) s)))"
  using assms by (simp add: monitor_address_cases)


lemma probe_without_chat_sends_nothing:
  "outbox (snd (getTokenBalance w a None s)) = outbox s"
  by (simp add: probe_defs split: option.splits fetch_result.splits)







lemma monitor_addresses_append:
  "monitor_addresses w c (xs @ ys) s =
     (case monitor_addresses w c xs s of
        (Normal, s') \<Rightarrow> monitor_addresses w c ys s'
      | (Thrown, s') \<Rightarrow> (Thrown, s'))"
  by (induction xs arbitrary: s) (auto split: prod.splits completion.splits)

lemma monitor_chats_append:
  "monitor_chats w (xs @ ys) s =
     (case monitor_chats w xs s of
        (Normal, s') \<Rightarrow> monitor_chats w ys s'
      | (Thrown, s') \<Rightarrow> (Thrown, s'))"
  by (induction xs arbitrary: s) (auto split: prod.splits completion.splits)

lemma cycle_aborts_at_thrown_pair:
  assumes "userAddresses s = before @ (c, pre @ a # rest) # after"
    and "monitor_chats w before (logline LogCycleStart s) = (Normal, s0)"
    and "monitor_addresses w c pre s0 = (Normal, sa)"
    and "fst (monitor_address w c a sa) = Thrown"
  shows "monitorBalances w s = (Thrown, snd (monitor_address w c a sa))"
  using assms
  by (cases "monitor_address w c a sa")
     (simp add: monitorBalances_def monitor_chats_append monitor_addresses_append)

section \<open>Facts about the /add handler and runs\<close>

lemma send_fields [simp]:
  "knownTokenAccounts (snd (send w c m s)) = knownTokenAccounts s"
  "lastBalances (snd (send w c m s)) = lastBalances s"
  "userAddresses (snd (send w c m s)) = userAddresses s"
  "console (snd (send w c m s)) = console s"
  "outbox (snd (send w c m s)) = outbox s @ [(c, m, sendMessage w (tick s) c m)]"
  "tick (snd (send w c m s)) = Suc (tick s)"
  "fst (send w c m s) = sendMessage w (tick s) c m"
  by (simp_all add: send_def Let_def)

lemma add_command_cases:
  "add_command w c text s =
     (case command_argument text of
        None \<Rightarrow> snd (send w c ProvideAddress s)
      | Some a \<Rightarrow>
          if a = [] then snd (send w c ProvideAddress s)
          else if \<not> validKey w a then add_catch w c a s
          else
            (let s1 = s\<lparr>userAddresses := registry_add c a (userAddresses s)\<rparr>;
                 s2 = snd (send w c (AddedAddress a) s1)
             in if \<not> sendMessage w (tick s) c (AddedAddress a) then add_catch w c a s2
                else
                  (let r = fst (getTokenBalance w a (Some c) s2);
                       s3 = snd (getTokenBalance w a (Some c) s2)
                   in record_token_account a (tokenAccount r)
                        (s3\<lparr>lastBalances := (lastBalances s3)(a \<mapsto> balance r)\<rparr>))))"
  by (simp add: add_command_def send_def Let_def split: option.splits prod.splits)



lemma tracks_registry_add: "tracks (registry_add c a registry) c a"
  by (induction registry) (auto simp: tracks_def set_add_def)

lemma registry_add_tracked: "tracks registry c a \<Longrightarrow> registry_add c a registry = registry"
  by (induction registry) (auto simp: tracks_def set_add_def split: if_splits)

lemma add_catch_fields [simp]:
  "knownTokenAccounts (add_catch w c a s) = knownTokenAccounts s"
  "lastBalances (add_catch w c a s) = lastBalances s"
  "userAddresses (add_catch w c a s) = userAddresses s"
  "console (add_catch w c a s) = console s @ [ErrInvalidAddress a]"
  "outbox (add_catch w c a s) = outbox s @ [(c, InvalidAddress, sendMessage w (tick s) c InvalidAddress)]"
  by (simp_all add: add_catch_def logline_def)

lemma probe_log_fetching:
  "count_list (console (snd (getTokenBalance w a c s))) (LogFetching a) =
     count_list (console s) (LogFetching a) + 1"
  by (simp add: probe_defs split: option.splits fetch_result.splits bool.splits)

lemma probe_outbox_no_invalid_reply:
  "filter (\<lambda>e. fst (snd e) = InvalidAddress) (outbox (snd (getTokenBalance w a c s))) =
     filter (\<lambda>e. fst (snd e) = InvalidAddress) (outbox s)"
  by (simp add: probe_defs split: option.splits fetch_result.splits bool.splits)

lemma probe_console_no_invalid:
  "count_list (console (snd (getTokenBalance w a c s))) (ErrInvalidAddress b) =
     count_list (console s) (ErrInvalidAddress b)"
  by (simp add: probe_defs split: option.splits fetch_result.splits bool.splits)

section \<open>Facts about recording a token account\<close>











section \<open>The claims\<close>

subsection \<open>C1: a failed probe and the stored balance\<close>

text \<open>
  Claim C1 says that a probe returning a \<^verbatim>\<open>null\<close> balance leaves \<^verbatim>\<open>lastBalances\<close> and
  \<^verbatim>\<open>knownTokenAccounts\<close> of the address as they were on every path, the /add handler and
  the seed loop included. The monitoring loop does skip a \<^verbatim>\<open>null\<close> result (lines 147 to
  150), but the handler stores it (line 52), as the seed loop does (line 183). Here
  \<open>alice\<close> has a stored balance of \<open>7.5\<close>, chat \<open>1001\<close> sends /add for her again while the
  ledger answers with an error: the stored balance becomes \<^verbatim>\<open>null\<close>. When the ledger is
  back, the next cycle reads the \<^verbatim>\<open>null\<close> as \<open>0\<close> and reports a change from \<open>0\<close> to \<open>7.5\<close>
  that never took place. The seed loop, run on \<open>alice\<close> under the same ledger, stores
  \<^verbatim>\<open>null\<close> for her as well.
\<close>

theorem add_failed_probe_overwrites_balance:
  "lastBalances (alice_known [(1001, [alice])] (15 / 2)) alice = Some (Balance (15 / 2))
   \<and> lastBalances
        (add_command (example_world (\<lambda>t a. OtherError) (\<lambda>t c m. True)) 1001 (''/add '' @ alice)
           (alice_known [(1001, [alice])] (15 / 2))) alice = Some Null
   \<and> outbox
        (run (example_world (\<lambda>t a. if t < 2 then OtherError else Account 7500000) (\<lambda>t c m. True))
           [AddCommand 1001 (''/add '' @ alice), TimerFires]
           (alice_known [(1001, [alice])] (15 / 2))) =
       [(1001, AddedAddress alice, True),
        (1001, BalanceChange alice 0 (15 / 2) (15 / 2), True)]
   \<and> lastBalances initial_state alice = None
   \<and> lastBalances
        (load_initial (example_world (\<lambda>t a. OtherError) (\<lambda>t c m. True)) [alice] initial_state)
        alice = Some Null"
  by (simp add: eval_defs)

subsection \<open>C2: who receives a balance change\<close>

text \<open>
  Against claim C2 as stated. Chats \<open>1001\<close> and \<open>1002\<close> both track \<open>alice\<close>, her stored
  balance is \<open>5\<close> and the ledger now holds \<open>7.5\<close>. The cycle notifies chat \<open>1001\<close> and stores
  \<open>7.5\<close>; when chat \<open>1002\<close> is iterated the probe equals the stored balance, and nothing is
  sent to it.
\<close>

theorem second_subscriber_not_notified:
  "tracks (userAddresses (alice_known [(1001, [alice]), (1002, [alice])] 5)) 1002 alice
   \<and> lastBalances (alice_known [(1001, [alice]), (1002, [alice])] 5) alice = Some (Balance 5)
   \<and> normalized_balance 7500000 = 15 / 2
   \<and> outbox
        (snd (monitorBalances (example_world (\<lambda>t a. Account 7500000) (\<lambda>t c m. True))
                (alice_known [(1001, [alice]), (1002, [alice])] 5))) =
       [(1001, BalanceChange alice 5 (15 / 2) (5 / 2), True)]"
  by (simp add: eval_defs)

text \<open>
  Claim C2, amended: in one iteration of the loop (one subscriber, one address), when the
  probed balance differs from the stored one (a missing or \<^verbatim>\<open>null\<close> stored balance counting
  as \<open>0\<close>), exactly one message is handed to the transport after the probe, addressed to
  the subscriber of that iteration and carrying the previous balance, the current one and
  their difference; when it is delivered, the stored balance becomes the current one.
\<close>

theorem balance_change_notifies_iterated_subscriber:
  assumes "balance (fst (getTokenBalance w a (Some c) s)) = Balance cur"
    and "cur \<noteq> lastBalance_or_zero (lastBalances s) a"
  shows "let s1 = snd (getTokenBalance w a (Some c) s);
             prev = lastBalance_or_zero (lastBalances s) a;
             m = BalanceChange a prev cur (js_sub cur prev);
             delivered = sendMessage w (tick s1) c m;
             s' = snd (monitor_address w c a s)
         in outbox s' = outbox s1 @ [(c, m, delivered)]
            \<and> (delivered \<longrightarrow> lastBalances s' a = Some (Balance cur))"
  using assms by (simp add: monitor_address_cases Let_def)

text \<open>The amended C2 at the first iteration of the cycle above.\<close>

theorem balance_change_notifies_iterated_subscriber_witness:
  "balance (fst (getTokenBalance (example_world (\<lambda>t a. Account 7500000) (\<lambda>t c m. True)) alice
       (Some 1001) (alice_known [(1001, [alice]), (1002, [alice])] 5))) = Balance (15 / 2)
   \<and> 15 / 2 \<noteq> lastBalance_or_zero
        (lastBalances (alice_known [(1001, [alice]), (1002, [alice])] 5)) alice
   \<and> outbox (snd (monitor_address (example_world (\<lambda>t a. Account 7500000) (\<lambda>t c m. True))
        1001 alice (alice_known [(1001, [alice]), (1002, [alice])] 5))) =
       [(1001, BalanceChange alice 5 (15 / 2) (5 / 2), True)]
   \<and> lastBalances (snd (monitor_address (example_world (\<lambda>t a. Account 7500000) (\<lambda>t c m. True))
        1001 alice (alice_known [(1001, [alice]), (1002, [alice])] 5))) alice =
       Some (Balance (15 / 2))"
proof -
  let ?w = "example_world (\<lambda>t a. Account 7500000) (\<lambda>t c m. True)"
  let ?s = "alice_known [(1001, [alice]), (1002, [alice])] 5"
  have h1: "balance (fst (getTokenBalance ?w alice (Some 1001) ?s)) = Balance (15 / 2)"
    by (simp add: eval_defs)
  have h2: "15 / 2 \<noteq> lastBalance_or_zero (lastBalances ?s) alice"
    by (simp add: eval_defs)
  have s1: "outbox (snd (getTokenBalance ?w alice (Some 1001) ?s)) = []"
    "tick (snd (getTokenBalance ?w alice (Some 1001) ?s)) = 1"
    "lastBalance_or_zero (lastBalances ?s) alice = 5"
    "sendMessage ?w = (\<lambda>t c m. True)"
    by (simp_all add: eval_defs)
  show ?thesis
    using h1 h2 balance_change_notifies_iterated_subscriber[OF h1 h2]
    by (simp add: Let_def s1 js_sub_values)
qed

subsection \<open>C3: a delivery that fails\<close>

text \<open>
  Against claim C3 as stated. Chat \<open>1001\<close> tracks \<open>alice\<close> and \<open>bob\<close>, the balance of \<open>alice\<close>
  went from \<open>5\<close> to \<open>7.5\<close>, and the transport rejects every message. The cycle ends with the
  exception of line 165: \<open>bob\<close> is never fetched, the cycle does not reach its last line, and
  the stored balance of \<open>alice\<close> is still \<open>5\<close>.
\<close>

theorem delivery_failure_aborts_cycle:
  "fst (monitorBalances (example_world (\<lambda>t a. Account 7500000) (\<lambda>t c m. False))
          (alice_known [(1001, [alice, bob])] 5)) = Thrown
   \<and> console (snd (monitorBalances (example_world (\<lambda>t a. Account 7500000) (\<lambda>t c m. False))
          (alice_known [(1001, [alice, bob])] 5))) =
       [LogCycleStart, LogFetching alice, LogSending alice 1001]
   \<and> outbox (snd (monitorBalances (example_world (\<lambda>t a. Account 7500000) (\<lambda>t c m. False))
          (alice_known [(1001, [alice, bob])] 5))) =
       [(1001, BalanceChange alice 5 (15 / 2) (5 / 2), False)]
   \<and> lastBalances (snd (monitorBalances (example_world (\<lambda>t a. Account 7500000) (\<lambda>t c m. False))
          (alice_known [(1001, [alice, bob])] 5))) alice = Some (Balance 5)"
  by (simp add: eval_defs)

text \<open>
  Claim C3, amended. When the balance-change message of a pair is rejected, the exception
  leaves \<^verbatim>\<open>monitorBalances\<close> at that pair, wherever the pair stands in the cycle: the pairs
  after it are not visited, the console ends with the announcement of the send (line 164)
  and holds no error for it, \<^verbatim>\<open>lastBalances\<close> keeps the previous balance of the address,
  and the token account recorded just before stays recorded. When the
  account-created message of the probe is rejected instead, the probe logs the error and
  returns \<^verbatim>\<open>null\<close>: the loop skips the address and goes on, with both maps as they were.
\<close>

theorem delivery_failure_in_cycle:
  "(userAddresses s = before @ (c, pre @ a # rest) # after
      \<and> monitor_chats w before (logline LogCycleStart s) = (Normal, s0)
      \<and> monitor_addresses w c pre s0 = (Normal, sa)
      \<and> balance (fst (getTokenBalance w a (Some c) sa)) = Balance cur
      \<and> cur \<noteq> lastBalance_or_zero (lastBalances sa) a
      \<and> \<not> sendMessage w (tick (snd (getTokenBalance w a (Some c) sa))) c
            (BalanceChange a (lastBalance_or_zero (lastBalances sa) a) cur
               (js_sub cur (lastBalance_or_zero (lastBalances sa) a)))
    \<longrightarrow> monitorBalances w s = (Thrown, snd (monitor_address w c a sa))
      \<and> lastBalances (snd (monitor_address w c a sa)) = lastBalances sa
      \<and> knownTokenAccounts (snd (monitor_address w c a sa)) =
          knownTokenAccounts
            (record_token_account a (tokenAccount (fst (getTokenBalance w a (Some c) sa))) sa)
      \<and> console (snd (monitor_address w c a sa)) =
          console (snd (getTokenBalance w a (Some c) sa)) @ [LogSending a c])
   \<and> (validKey w a \<and> validKey w (tokenMint w) \<and> deriveATA w a = Some ata
      \<and> getAccount w (tick s) ata = Account n
      \<and> ata \<notin> (case knownTokenAccounts s a of None \<Rightarrow> {} | Some A \<Rightarrow> A)
      \<and> c \<noteq> 0 \<and> \<not> sendMessage w (Suc (tick s)) c (NewTokenAccount a ata)
    \<longrightarrow> fst (monitor_address w c a s) = Normal
      \<and> lastBalances (snd (monitor_address w c a s)) = lastBalances s
      \<and> knownTokenAccounts (snd (monitor_address w c a s)) = knownTokenAccounts s
      \<and> console (snd (monitor_address w c a s)) =
          console s @ [LogFetching a, LogNewAccount a ata, ErrTokenBalance a, LogSkip a])"
proof (intro conjI impI)
  assume h: "userAddresses s = before @ (c, pre @ a # rest) # after
      \<and> monitor_chats w before (logline LogCycleStart s) = (Normal, s0)
      \<and> monitor_addresses w c pre s0 = (Normal, sa)
      \<and> balance (fst (getTokenBalance w a (Some c) sa)) = Balance cur
      \<and> cur \<noteq> lastBalance_or_zero (lastBalances sa) a
      \<and> \<not> sendMessage w (tick (snd (getTokenBalance w a (Some c) sa))) c
            (BalanceChange a (lastBalance_or_zero (lastBalances sa) a) cur
               (js_sub cur (lastBalance_or_zero (lastBalances sa) a)))"
  then have thrown: "fst (monitor_address w c a sa) = Thrown"
    by (simp add: monitor_address_cases Let_def)
  with h show "monitorBalances w s = (Thrown, snd (monitor_address w c a sa))"
    by (simp add: cycle_aborts_at_thrown_pair)
  from h show "lastBalances (snd (monitor_address w c a sa)) = lastBalances sa"
    by (simp add: monitor_address_cases Let_def getTokenBalance_store)
  from h show "knownTokenAccounts (snd (monitor_address w c a sa)) =
          knownTokenAccounts
            (record_token_account a (tokenAccount (fst (getTokenBalance w a (Some c) sa))) sa)"
    by (simp add: monitor_address_cases Let_def record_token_account_def getTokenBalance_store
        split: option.splits)
  from h show "console (snd (monitor_address w c a sa)) =
          console (snd (getTokenBalance w a (Some c) sa)) @ [LogSending a c]"
    by (simp add: monitor_address_cases Let_def)
next
  assume h: "validKey w a \<and> validKey w (tokenMint w) \<and> deriveATA w a = Some ata
      \<and> getAccount w (tick s) ata = Account n
      \<and> ata \<notin> (case knownTokenAccounts s a of None \<Rightarrow> {} | Some A \<Rightarrow> A)
      \<and> c \<noteq> 0 \<and> \<not> sendMessage w (Suc (tick s)) c (NewTokenAccount a ata)"
  then have g: "getTokenBalance w a (Some c) s =
     (\<lparr>balance = Null, tokenAccount = None\<rparr>,
      s\<lparr>console := console s @ [LogFetching a, LogNewAccount a ata, ErrTokenBalance a],
        outbox := outbox s @ [(c, NewTokenAccount a ata, False)],
        tick := Suc (Suc (tick s))\<rparr>)"
    by (simp add: probe_defs)
  show "fst (monitor_address w c a s) = Normal"
    and "lastBalances (snd (monitor_address w c a s)) = lastBalances s"
    and "knownTokenAccounts (snd (monitor_address w c a s)) = knownTokenAccounts s"
    and "console (snd (monitor_address w c a s)) =
          console s @ [LogFetching a, LogNewAccount a ata, ErrTokenBalance a, LogSkip a]"
    by (simp_all add: monitor_address_cases g logline_def)
qed

text \<open>
  The amended C3 on a cycle where both happen: the account-created message for \<open>bob\<close> is
  rejected and the loop goes on to \<open>alice\<close>, whose balance-change message is rejected and
  ends the cycle before chat \<open>1002\<close>.
\<close>

theorem delivery_failure_in_cycle_witness:
  "monitor_addresses (example_world (\<lambda>t a. Account 7500000) (\<lambda>t c m. False)) 1001 [bob]
       (logline LogCycleStart (alice_known [(1001, [bob, alice]), (1002, [bob])] 5)) =
     (Normal,
      alice_known [(1001, [bob, alice]), (1002, [bob])] 5
        \<lparr>outbox := [(1001, NewTokenAccount bob bob_ata, False)],
         console := [LogCycleStart, LogFetching bob, LogNewAccount bob bob_ata,
                     ErrTokenBalance bob, LogSkip bob],
         tick := 2\<rparr>)
   \<and> monitorBalances (example_world (\<lambda>t a. Account 7500000) (\<lambda>t c m. False))
       (alice_known [(1001, [bob, alice]), (1002, [bob])] 5) =
     (Thrown,
      alice_known [(1001, [bob, alice]), (1002, [bob])] 5
        \<lparr>outbox := [(1001, NewTokenAccount bob bob_ata, False),
                    (1001, BalanceChange alice 5 (15 / 2) (5 / 2), False)],
         console := [LogCycleStart, LogFetching bob, LogNewAccount bob bob_ata,
                     ErrTokenBalance bob, LogSkip bob, LogFetching alice,
                     LogSending alice 1001],
         tick := 4\<rparr>)"
proof -
  let ?w = "example_world (\<lambda>t a. Account 7500000) (\<lambda>t c m. False)"
  let ?s = "alice_known [(1001, [bob, alice]), (1002, [bob])] 5"
  let ?start = "logline LogCycleStart ?s"
  let ?sa = "?s\<lparr>outbox := [(1001, NewTokenAccount bob bob_ata, False)],
         console := [LogCycleStart, LogFetching bob, LogNewAccount bob bob_ata,
                     ErrTokenBalance bob, LogSkip bob],
         tick := 2\<rparr>"
  have h2: "validKey ?w bob \<and> validKey ?w (tokenMint ?w) \<and> deriveATA ?w bob = Some bob_ata
      \<and> getAccount ?w (tick ?start) bob_ata = Account 7500000
      \<and> bob_ata \<notin> (case knownTokenAccounts ?start bob of None \<Rightarrow> {} | Some A \<Rightarrow> A)
      \<and> (1001::int) \<noteq> 0
      \<and> \<not> sendMessage ?w (Suc (tick ?start)) 1001 (NewTokenAccount bob bob_ata)"
    by (intro conjI) (simp_all add: eval_defs)
  note skipped = delivery_failure_in_cycle[where w = ?w and a = bob and c = 1001 and s = ?start
      and ata = bob_ata and n = 7500000, THEN conjunct2, rule_format, OF h2]
  have pre: "monitor_addresses ?w 1001 [bob] ?start = (Normal, ?sa)"
    by (simp add: eval_defs)
  have h1: "userAddresses ?s = [] @ (1001, [bob] @ alice # []) # [(1002, [bob])]
      \<and> monitor_chats ?w [] ?start = (Normal, ?start)
      \<and> monitor_addresses ?w 1001 [bob] ?start = (Normal, ?sa)
      \<and> balance (fst (getTokenBalance ?w alice (Some 1001) ?sa)) = Balance (15 / 2)
      \<and> 15 / 2 \<noteq> lastBalance_or_zero (lastBalances ?sa) alice
      \<and> \<not> sendMessage ?w (tick (snd (getTokenBalance ?w alice (Some 1001) ?sa))) 1001
            (BalanceChange alice (lastBalance_or_zero (lastBalances ?sa) alice) (15 / 2)
               (js_sub (15 / 2) (lastBalance_or_zero (lastBalances ?sa) alice)))"
    by (intro conjI) (simp_all add: eval_defs)
  note aborted = delivery_failure_in_cycle[where w = ?w and a = alice and c = 1001 and s = ?s
      and ?s0.0 = ?start and sa = ?sa and before = "[]" and pre = "[bob]" and rest = "[]"
      and after = "[(1002, [bob])]" and cur = "15 / 2",
      THEN conjunct1, rule_format, OF h1]
  have last: "snd (monitor_address ?w 1001 alice ?sa) =
      ?s\<lparr>outbox := [(1001, NewTokenAccount bob bob_ata, False),
                    (1001, BalanceChange alice 5 (15 / 2) (5 / 2), False)],
         console := [LogCycleStart, LogFetching bob, LogNewAccount bob bob_ata,
                     ErrTokenBalance bob, LogSkip bob, LogFetching alice,
                     LogSending alice 1001],
         tick := 4\<rparr>"
    by (simp add: eval_defs)
  show ?thesis
    using aborted skipped pre by (simp add: last)
qed

subsection \<open>C5: an address without a stored balance\<close>

text \<open>
  Claim C5: for an address with no entry in \<^verbatim>\<open>lastBalances\<close> and a probe that returns the
  number \<open>b\<close>, the comparison of line 158 is made against \<open>0\<close>, and a balance-change message
  (with previous balance \<open>0\<close>) is handed to the transport exactly when \<open>b \<noteq> 0\<close>.
\<close>

theorem first_observation_compares_with_zero:
  assumes "lastBalances s a = None"
    and "balance (fst (getTokenBalance w a (Some c) s)) = Balance b"
  shows "let s1 = snd (getTokenBalance w a (Some c) s);
             m = BalanceChange a 0 b (js_sub b 0);
             s' = snd (monitor_address w c a s)
         in lastBalance_or_zero (lastBalances s1) a = 0
            \<and> (if b \<noteq> 0 then outbox s' = outbox s1 @ [(c, m, sendMessage w (tick s1) c m)]
                else outbox s' = outbox s1)"
proof -
  have z: "lastBalance_or_zero (lastBalances s) a = 0"
    using assms(1) by (simp add: lastBalance_or_zero_def)
  show ?thesis
    using assms(2) z by (simp add: monitor_address_cases Let_def getTokenBalance_store)
qed

text \<open>Claim C5 on a first cycle for \<open>alice\<close>, whose account holds \<open>7.5\<close>.\<close>

theorem first_observation_compares_with_zero_witness:
  "lastBalances (initial_state\<lparr>userAddresses := [(1001, [alice])]\<rparr>) alice = None
   \<and> balance (fst (getTokenBalance (example_world (\<lambda>t a. Account 7500000) (\<lambda>t c m. True)) alice
         (Some 1001) (initial_state\<lparr>userAddresses := [(1001, [alice])]\<rparr>))) = Balance (15 / 2)
   \<and> outbox (snd (monitor_address (example_world (\<lambda>t a. Account 7500000) (\<lambda>t c m. True))
         1001 alice (initial_state\<lparr>userAddresses := [(1001, [alice])]\<rparr>))) =
       [(1001, NewTokenAccount alice alice_ata, True),
        (1001, BalanceChange alice 0 (15 / 2) (15 / 2), True)]"
proof -
  let ?w = "example_world (\<lambda>t a. Account 7500000) (\<lambda>t c m. True)"
  let ?s = "initial_state\<lparr>userAddresses := [(1001, [alice])]\<rparr>"
  have h1: "lastBalances ?s alice = None"
    by (simp add: eval_defs)
  have h2: "balance (fst (getTokenBalance ?w alice (Some 1001) ?s)) = Balance (15 / 2)"
    by (simp add: eval_defs)
  have s1: "outbox (snd (getTokenBalance ?w alice (Some 1001) ?s)) =
      [(1001, NewTokenAccount alice alice_ata, True)]"
    "sendMessage ?w = (\<lambda>t c m. True)"
    by (simp_all add: eval_defs)
  show ?thesis
    using h1 h2 first_observation_compares_with_zero[OF h1 h2]
    by (simp add: Let_def s1 more_values)
qed

subsection \<open>C6: detecting a new token account\<close>




subsection \<open>C7: a missing account and a failed fetch\<close>


text \<open>
  What the probe and the monitoring loop do: when \<^verbatim>\<open>getAccount\<close> fails with
  \<^verbatim>\<open>TokenAccountNotFoundError\<close> the probe returns the balance \<open>0\<close> and no token account, and
  logs no error; when it fails otherwise the probe returns a \<^verbatim>\<open>null\<close> balance and no token
  account, and the loop iteration given that result sends no message and leaves
  \<^verbatim>\<open>lastBalances\<close> as it was.
\<close>

lemma missing_account_is_zero_and_error_is_null:
  assumes "validKey w a" and "validKey w (tokenMint w)" and "deriveATA w a = Some ata"
  shows "(getAccount w (tick s) ata = TokenAccountNotFoundError \<longrightarrow>
            getTokenBalance w a c s =
              (\<lparr>balance = Balance 0, tokenAccount = None\<rparr>,
               s\<lparr>console := console s @ [LogFetching a, LogNotFound a],
                 tick := Suc (tick s)\<rparr>))
       \<and> (getAccount w (tick s) ata = OtherError \<longrightarrow>
            getTokenBalance w a c s =
              (\<lparr>balance = Null, tokenAccount = None\<rparr>,
               s\<lparr>console := console s @ [LogFetching a, ErrTokenAccount a, ErrTokenBalance a],
                 tick := Suc (tick s)\<rparr>)
            \<and> fst (monitor_address w c' a s) = Normal
            \<and> lastBalances (snd (monitor_address w c' a s)) = lastBalances s
            \<and> outbox (snd (monitor_address w c' a s)) = outbox s)"
  using assms by (simp add: probe_defs monitor_address_cases)

text \<open>The same for \<open>alice\<close> with a stored balance of \<open>7.5\<close>, under a ledger that has no
  account and under a ledger that fails.\<close>

lemma missing_account_is_zero_and_error_is_null_example:
  "getTokenBalance (example_world (\<lambda>t a. TokenAccountNotFoundError) (\<lambda>t c m. True)) alice
       (Some 1001) (alice_known [(1001, [alice])] (15 / 2)) =
     (\<lparr>balance = Balance 0, tokenAccount = None\<rparr>,
      alice_known [(1001, [alice])] (15 / 2)
        \<lparr>console := [LogFetching alice, LogNotFound alice], tick := 1\<rparr>)
   \<and> fst (getTokenBalance (example_world (\<lambda>t a. OtherError) (\<lambda>t c m. True)) alice
       (Some 1001) (alice_known [(1001, [alice])] (15 / 2))) =
       \<lparr>balance = Null, tokenAccount = None\<rparr>
   \<and> lastBalances (snd (monitor_address (example_world (\<lambda>t a. OtherError) (\<lambda>t c m. True))
       1001 alice (alice_known [(1001, [alice])] (15 / 2)))) alice = Some (Balance (15 / 2))
   \<and> outbox (snd (monitor_address (example_world (\<lambda>t a. OtherError) (\<lambda>t c m. True))
       1001 alice (alice_known [(1001, [alice])] (15 / 2)))) = []"
proof -
  let ?missing = "example_world (\<lambda>t a. TokenAccountNotFoundError) (\<lambda>t c m. True)"
  let ?down = "example_world (\<lambda>t a. OtherError) (\<lambda>t c m. True)"
  let ?s = "alice_known [(1001, [alice])] (15 / 2)"
  have v1: "validKey ?missing alice" "validKey ?missing (tokenMint ?missing)"
    "deriveATA ?missing alice = Some alice_ata"
    by (simp_all add: eval_defs)
  have v2: "validKey ?down alice" "validKey ?down (tokenMint ?down)"
    "deriveATA ?down alice = Some alice_ata"
    by (simp_all add: eval_defs)
  have f1: "getAccount ?missing (tick ?s) alice_ata = TokenAccountNotFoundError"
    and f2: "getAccount ?down (tick ?s) alice_ata = OtherError"
    by (simp_all add: eval_defs)
  have c0: "console ?s = []" "tick ?s = 0" "outbox ?s = []"
    "lastBalances ?s alice = Some (Balance (15 / 2))"
    by (simp_all add: eval_defs)
  from
    missing_account_is_zero_and_error_is_null[OF v1, where s = ?s and c = "Some 1001",
      THEN conjunct1, rule_format, OF f1]
    missing_account_is_zero_and_error_is_null[OF v2, where s = ?s and c = "Some 1001" and c' = 1001,
      THEN conjunct2, rule_format, OF f2]
  show ?thesis by (simp add: c0)
qed

subsection \<open>C8: /add and the registry\<close>

text \<open>
  Against claim C8 as stated. Chat \<open>1001\<close> already tracks \<open>alice\<close> and sends /add for her
  again; the confirmation of line 49 is rejected, the handler's \<^verbatim>\<open>catch\<close> runs, and no probe
  is made.
\<close>

theorem resubscription_without_probe:
  "validKey (example_world (\<lambda>t a. Account 7500000) (\<lambda>t c m. False)) alice
   \<and> tracks (userAddresses (alice_known [(1001, [alice])] 5)) 1001 alice
   \<and> console (add_command (example_world (\<lambda>t a. Account 7500000) (\<lambda>t c m. False)) 1001
        (''/add '' @ alice) (alice_known [(1001, [alice])] 5)) = [ErrInvalidAddress alice]"
  by (simp add: eval_defs)

text \<open>
  Claim C8, amended. /add with an address that \<^verbatim>\<open>new PublicKey\<close> rejects changes none of
  the three maps and answers with the invalid-address reply. /add with a valid address
  that the chat already tracks leaves \<^verbatim>\<open>userAddresses\<close> as it was, and makes exactly one
  probe of the address when the confirmation reply is delivered.
\<close>

theorem add_command_registry:
  assumes "command_argument text = Some a" and "a \<noteq> []"
  shows "(\<not> validKey w a \<longrightarrow>
            userAddresses (add_command w c text s) = userAddresses s
          \<and> lastBalances (add_command w c text s) = lastBalances s
          \<and> knownTokenAccounts (add_command w c text s) = knownTokenAccounts s
          \<and> outbox (add_command w c text s) =
              outbox s @ [(c, InvalidAddress, sendMessage w (tick s) c InvalidAddress)])
       \<and> (validKey w a \<and> tracks (userAddresses s) c a \<longrightarrow>
            userAddresses (add_command w c text s) = userAddresses s
          \<and> (sendMessage w (tick s) c (AddedAddress a) \<longrightarrow>
               count_list (console (add_command w c text s)) (LogFetching a) =
                 count_list (console s) (LogFetching a) + 1))"
  using assms
  by (simp add: add_command_cases Let_def registry_add_tracked getTokenBalance_store
      probe_log_fetching)

text \<open>The amended C8 for a string that is no key and for \<open>alice\<close>, already tracked.\<close>

theorem add_command_registry_witness:
  "\<not> validKey (example_world (\<lambda>t a. Account 7500000) (\<lambda>t c m. True)) ''notakey''
   \<and> userAddresses (add_command (example_world (\<lambda>t a. Account 7500000) (\<lambda>t c m. True)) 1001
        ''/add notakey'' (alice_known [(1001, [alice])] 5)) = [(1001, [alice])]
   \<and> outbox (add_command (example_world (\<lambda>t a. Account 7500000) (\<lambda>t c m. True)) 1001
        ''/add notakey'' (alice_known [(1001, [alice])] 5)) = [(1001, InvalidAddress, True)]
   \<and> validKey (example_world (\<lambda>t a. Account 7500000) (\<lambda>t c m. True)) alice
   \<and> tracks (userAddresses (alice_known [(1001, [alice])] 5)) 1001 alice
   \<and> userAddresses (add_command (example_world (\<lambda>t a. Account 7500000) (\<lambda>t c m. True)) 1001
        (''/add '' @ alice) (alice_known [(1001, [alice])] 5)) = [(1001, [alice])]
   \<and> count_list (console (add_command (example_world (\<lambda>t a. Account 7500000) (\<lambda>t c m. True))
        1001 (''/add '' @ alice) (alice_known [(1001, [alice])] 5))) (LogFetching alice) = 1"
proof -
  let ?w = "example_world (\<lambda>t a. Account 7500000) (\<lambda>t c m. True)"
  let ?s = "alice_known [(1001, [alice])] 5"
  have a1: "command_argument ''/add notakey'' = Some ''notakey''" "''notakey'' \<noteq> []"
    by (simp_all add: command_argument_def)
  have a2: "command_argument (''/add '' @ alice) = Some alice" "alice \<noteq> []"
    by (simp_all add: command_argument_add)
  have h1: "\<not> validKey ?w ''notakey''"
    by (simp add: eval_defs alice_def bob_def mint_def)
  have h2: "validKey ?w alice \<and> tracks (userAddresses ?s) 1001 alice"
    by (intro conjI) (simp_all add: eval_defs)
  have h3: "sendMessage ?w (tick ?s) 1001 (AddedAddress alice)"
    by (simp add: eval_defs)
  have c0: "console ?s = []" "outbox ?s = []" "userAddresses ?s = [(1001, [alice])]"
    "sendMessage ?w = (\<lambda>t c m. True)"
    by (simp_all add: eval_defs)
  from
    add_command_registry[OF a1, where w = ?w and c = 1001 and s = ?s,
      THEN conjunct1, rule_format, OF h1]
    add_command_registry[OF a2, where w = ?w and c = 1001 and s = ?s,
      THEN conjunct2, rule_format, OF h2]
    h1 h2 h3
  show ?thesis by (simp add: c0)
qed

subsection \<open>C9: normalized balances and raw amounts\<close>

text \<open>
  Against claim C9 as stated. Two raw amounts that differ by one, from
  \<open>2\<^sup>3\<^sup>3 \<cdot> 10\<^sup>6 + 1\<close> on, can give the same number after the division; from \<open>2\<^sup>5\<^sup>3\<close> on,
  \<^verbatim>\<open>Number\<close> itself no longer tells every amount from the next.
\<close>

theorem equal_balances_of_distinct_amounts:
  "normalized_balance 8589934592000001 = normalized_balance 8589934592000002
   \<and> (8589934592000001::nat) \<noteq> 8589934592000002
   \<and> normalized_balance 9007199254740992 = normalized_balance 9007199254740993"
proof -
  have "fl (fl 8589934592000001 / 10 ^ 6) = fl (fl 8589934592000002 / 10 ^ 6)"
    by code_simp
  moreover have "fl (fl 9007199254740992 / 10 ^ 6) = fl (fl 9007199254740993 / 10 ^ 6)"
    by code_simp
  ultimately show ?thesis
    by (simp add: normalized_balance_def Number_def js_div_def)
qed

text \<open>
  Claim C9, amended: the balance is \<^verbatim>\<open>Number(amount) / Math.pow(10, 6)\<close> in binary64
  arithmetic, balances are compared exactly (line 158 has no tolerance), and for raw
  amounts below \<open>2\<^sup>3\<^sup>3 \<cdot> 10\<^sup>6 = 8589934592000000\<close> two balances are equal exactly when the raw
  amounts are.
\<close>

theorem normalized_balance_eq_iff:
  assumes "a < 2 ^ 33 * 10 ^ 6" and "b < 2 ^ 33 * 10 ^ 6"
  shows "(normalized_balance a = normalized_balance b) = (a = b)"
  using normalized_balance_injective[OF assms] by auto

text \<open>The amended C9 at two amounts one apart.\<close>

theorem normalized_balance_eq_iff_witness:
  "(7500000::nat) < 2 ^ 33 * 10 ^ 6 \<and> (7500001::nat) < 2 ^ 33 * 10 ^ 6
   \<and> (normalized_balance 7500000 = normalized_balance 7500001) = (7500000 = (7500001::nat))"
proof -
  have h1: "(7500000::nat) < 2 ^ 33 * 10 ^ 6" and h2: "(7500001::nat) < 2 ^ 33 * 10 ^ 6"
    by simp_all
  show ?thesis
    using h1 h2 normalized_balance_eq_iff[OF h1 h2] by simp
qed

subsection \<open>C10: exceptions after the address is validated\<close>

text \<open>
  Against claim C10 as stated. A rejected account-created message and a failing fetch are
  both caught inside \<^verbatim>\<open>getTokenBalance\<close>: the handler's \<^verbatim>\<open>catch\<close> does not run, and no
  invalid-address reply is sent.
\<close>

theorem probe_exceptions_not_reported_as_invalid:
  "outbox (add_command
       (example_world (\<lambda>t a. Account 7500000)
          (\<lambda>t c m. case m of NewTokenAccount a u \<Rightarrow> False | _ \<Rightarrow> True))
       1001 (''/add '' @ alice) initial_state) =
     [(1001, AddedAddress alice, True), (1001, NewTokenAccount alice alice_ata, False)]
   \<and> console (add_command
       (example_world (\<lambda>t a. Account 7500000)
          (\<lambda>t c m. case m of NewTokenAccount a u \<Rightarrow> False | _ \<Rightarrow> True))
       1001 (''/add '' @ alice) initial_state) =
     [LogFetching alice, LogNewAccount alice alice_ata, ErrTokenBalance alice]
   \<and> outbox (add_command (example_world (\<lambda>t a. OtherError) (\<lambda>t c m. True))
       1001 (''/add '' @ alice) initial_state) =
     [(1001, AddedAddress alice, True)]
   \<and> console (add_command (example_world (\<lambda>t a. OtherError) (\<lambda>t c m. True))
       1001 (''/add '' @ alice) initial_state) =
     [LogFetching alice, ErrTokenAccount alice, ErrTokenBalance alice]"
  by (simp add: eval_defs)

text \<open>
  Claim C10, amended. After a valid address is added for a chat, the chat tracks it
  whatever follows. When the confirmation reply of line 49 is rejected, the handler's
  \<^verbatim>\<open>catch\<close> logs the address as invalid and sends the invalid-address reply, and no probe
  is made. When the confirmation is delivered, nothing the probe does brings the handler
  to its \<^verbatim>\<open>catch\<close>: no invalid-address reply is sent and no invalid address is logged.
\<close>

theorem add_command_after_validation:
  assumes "command_argument text = Some a" and "a \<noteq> []" and "validKey w a"
  shows "tracks (userAddresses (add_command w c text s)) c a
       \<and> (\<not> sendMessage w (tick s) c (AddedAddress a) \<longrightarrow>
            outbox (add_command w c text s) =
              outbox s @ [(c, AddedAddress a, False),
                          (c, InvalidAddress, sendMessage w (Suc (tick s)) c InvalidAddress)]
          \<and> console (add_command w c text s) = console s @ [ErrInvalidAddress a])
       \<and> (sendMessage w (tick s) c (AddedAddress a) \<longrightarrow>
            filter (\<lambda>e. fst (snd e) = InvalidAddress) (outbox (add_command w c text s)) =
              filter (\<lambda>e. fst (snd e) = InvalidAddress) (outbox s)
          \<and> count_list (console (add_command w c text s)) (ErrInvalidAddress a) =
              count_list (console s) (ErrInvalidAddress a))"
  using assms
  by (simp add: add_command_cases Let_def tracks_registry_add getTokenBalance_store
      probe_outbox_no_invalid_reply probe_console_no_invalid)

text \<open>The amended C10 for \<open>alice\<close>, with a transport that rejects everything and with one
  that delivers.\<close>

theorem add_command_after_validation_witness:
  "validKey (example_world (\<lambda>t a. Account 7500000) (\<lambda>t c m. False)) alice
   \<and> tracks (userAddresses (add_command (example_world (\<lambda>t a. Account 7500000) (\<lambda>t c m. False))
        1001 (''/add '' @ alice) initial_state)) 1001 alice
   \<and> outbox (add_command (example_world (\<lambda>t a. Account 7500000) (\<lambda>t c m. False))
        1001 (''/add '' @ alice) initial_state) =
       [(1001, AddedAddress alice, False), (1001, InvalidAddress, False)]
   \<and> console (add_command (example_world (\<lambda>t a. Account 7500000) (\<lambda>t c m. False))
        1001 (''/add '' @ alice) initial_state) = [ErrInvalidAddress alice]
   \<and> filter (\<lambda>e. fst (snd e) = InvalidAddress)
        (outbox (add_command (example_world (\<lambda>t a. Account 7500000) (\<lambda>t c m. True))
           1001 (''/add '' @ alice) initial_state)) = []"
proof -
  let ?down = "example_world (\<lambda>t a. Account 7500000) (\<lambda>t c m. False)"
  let ?up = "example_world (\<lambda>t a. Account 7500000) (\<lambda>t c m. True)"
  have a: "command_argument (''/add '' @ alice) = Some alice" "alice \<noteq> []"
    by (simp_all add: command_argument_add)
  have v: "validKey ?down alice" "validKey ?up alice"
    by (simp_all add: eval_defs)
  have h1: "\<not> sendMessage ?down (tick initial_state) 1001 (AddedAddress alice)"
    and h2: "sendMessage ?up (tick initial_state) 1001 (AddedAddress alice)"
    by (simp_all add: eval_defs)
  have c0: "console initial_state = []" "outbox initial_state = []"
    "sendMessage ?down = (\<lambda>t c m. False)"
    by (simp_all add: eval_defs)
  note t1 = add_command_after_validation[OF a v(1), where c = 1001 and s = initial_state]
  note t2 = add_command_after_validation[OF a v(2), where c = 1001 and s = initial_state]
  from t1[THEN conjunct1] t1[THEN conjunct2, THEN conjunct1, rule_format, OF h1]
    t2[THEN conjunct2, THEN conjunct2, rule_format, OF h2] v(1)
  show ?thesis by (simp add: c0)
qed

end
